theory Spec2Isabelle
  imports Complex_Main "HOL-Library.Sublist"
begin

section \<open>JavaScript values\<close>

text \<open>
  The screen of \<^verbatim>\<open>src/app/(tabs)/index.tsx\<close> works on untyped data
  (\<^verbatim>\<open>item: any\<close>, \<^verbatim>\<open>useState<any | null>\<close>): whatever the HTTP
  client parsed from the response body. The values are modelled as they live in memory after
  parsing. A number is an IEEE double: its finite values are kept exactly as rationals. An
  object is the list of its own properties; a parsed object has each key once, so the order
  of the list carries no meaning and \<open>map_of\<close> reads a property.
\<close>

datatype jsnum = NaN | Fin rat | PosInf | NegInf

datatype jsval =
    JUndefined
  | JNull
  | JBool bool
  | JNum jsnum
  | JStr string
  | JArr "jsval list"
  | JObj "(string \<times> jsval) list"

text \<open>
  Exceptions carry their message. The wording of a message belongs to the engine; no
  theorem below depends on it.
\<close>

datatype exn = TypeError string | ReferenceError string | RangeError string | OtherError string

fun exnMessage :: "exn \<Rightarrow> string" where
  "exnMessage (TypeError m) = m"
| "exnMessage (ReferenceError m) = m"
| "exnMessage (RangeError m) = m"
| "exnMessage (OtherError m) = m"

text \<open>ToBoolean: what \<^verbatim>\<open>if (x)\<close>, \<^verbatim>\<open>!x\<close>, \<^verbatim>\<open>x || y\<close>,
  \<^verbatim>\<open>x && y\<close> and \<^verbatim>\<open>x ? a : b\<close> test.\<close>

fun numTruthy :: "jsnum \<Rightarrow> bool" where
  "numTruthy NaN = False"
| "numTruthy (Fin q) = (q \<noteq> 0)"
| "numTruthy PosInf = True"
| "numTruthy NegInf = True"

fun toBoolean :: "jsval \<Rightarrow> bool" where
  "toBoolean JUndefined = False"
| "toBoolean JNull = False"
| "toBoolean (JBool b) = b"
| "toBoolean (JNum n) = numTruthy n"
| "toBoolean (JStr s) = (s \<noteq> [])"
| "toBoolean (JArr xs) = True"
| "toBoolean (JObj ps) = True"

text \<open>
  The built-ins the source calls and does not define are parameters of the model:
  \<^item> \<open>newDate v\<close> is \<^verbatim>\<open>new Date(v)\<close> followed by
    \<^verbatim>\<open>getTime()\<close>: the time value in milliseconds, \<open>None\<close> for the
    \<^verbatim>\<open>NaN\<close> of an invalid date, or the exception the constructor throws;
  \<^item> \<open>toLocaleDateString t\<close> and \<open>toLocaleTimeString t\<close> are the two calls
    of lines 80 and 83 on a valid date, with the options written there and the ambient locale;
  \<^item> \<open>jsonStringify v\<close> is the text that \<^verbatim>\<open>${JSON.stringify(v)}\<close>
    puts into a template literal;
  \<^item> \<open>toNumber v\<close> is ToNumber, used by \<^verbatim>\<open>v > 0\<close> when \<open>v\<close> is not
    a number already;
  \<^item> \<open>axiosGet req\<close> is how \<^verbatim>\<open>await axios.get(url, config)\<close> settles;
  \<^item> \<open>randomText i\<close> is what \<^verbatim>\<open>Math.random().toString()\<close> gives when it is
    called for the row of index \<open>i\<close>.
\<close>

record response =
  status :: nat
  responseData :: jsval

record axios_error =
  isCancel :: bool
  errResponse :: "response option"
  errRequest :: bool
  errMessage :: string

datatype axios_outcome = Fulfilled response | Rejected axios_error

record request =
  url :: string
  headers :: "(string \<times> string) list"
  timeout :: nat

record runtime =
  newDate :: "jsval \<Rightarrow> exn + int option"
  toLocaleDateString :: "int \<Rightarrow> exn + string"
  toLocaleTimeString :: "int \<Rightarrow> exn + string"
  jsonStringify :: "jsval \<Rightarrow> string"
  toNumber :: "jsval \<Rightarrow> exn + jsnum"
  axiosGet :: "request \<Rightarrow> axios_outcome"
  randomText :: "nat \<Rightarrow> string"

section \<open>The per-row transform (renderEventCard, lines 63 to 133)\<close>

text \<open>
  \<open>columnValue item k\<close> is \<^verbatim>\<open>item.values?.[k]\<close> for one of the eight
  column keys of lines 64 to 67. Reading \<^verbatim>\<open>values\<close> of \<^verbatim>\<open>null\<close> or
  \<^verbatim>\<open>undefined\<close> throws. On an object it is the own property, or
  \<^verbatim>\<open>undefined\<close>. On a primitive it is \<^verbatim>\<open>undefined\<close>; on an array
  it is the built-in iterator method, which has none of the column keys: either way the read
  yields \<^verbatim>\<open>undefined\<close>. The optional chain yields \<^verbatim>\<open>undefined\<close>
  when \<^verbatim>\<open>values\<close> is \<^verbatim>\<open>null\<close> or \<^verbatim>\<open>undefined\<close>,
  and no column key names a built-in property of a string, a number, a boolean or an array.
\<close>

fun optionalIndex :: "jsval \<Rightarrow> string \<Rightarrow> jsval" where
  "optionalIndex (JObj ps) k = (case map_of ps k of None \<Rightarrow> JUndefined | Some v \<Rightarrow> v)"
| "optionalIndex v k = JUndefined"

fun columnValue :: "jsval \<Rightarrow> string \<Rightarrow> exn + jsval" where
  "columnValue JUndefined k = Inl (TypeError ''Cannot read properties of undefined'')"
| "columnValue JNull k = Inl (TypeError ''Cannot read properties of null'')"
| "columnValue (JObj ps) k =
     (case map_of ps ''values'' of
        None \<Rightarrow> Inr JUndefined
      | Some vs \<Rightarrow> Inr (optionalIndex vs k))"
| "columnValue v k = Inr JUndefined"

text \<open>\<^verbatim>\<open>item.values?.[name] || item.values?.[code]\<close>: the right operand is
  evaluated only when the left one is falsy, and is then the result whatever it is.\<close>

definition resolveField :: "jsval \<Rightarrow> string \<Rightarrow> string \<Rightarrow> exn + jsval" where
  "resolveField item name code =
     (case columnValue item name of
        Inl x \<Rightarrow> Inl x
      | Inr a \<Rightarrow> if toBoolean a then Inr a else columnValue item code)"

text \<open>Lines 69 to 89: the two formatted strings, from the resolved start value.\<close>

definition formatStart :: "runtime \<Rightarrow> jsval \<Rightarrow> string \<times> string" where
  "formatStart rt start =
     (if toBoolean start then
        (case newDate rt start of
           Inl x \<Rightarrow> (''Error in date'', ''Error in time'')
         | Inr None \<Rightarrow> (''Invalid Date'', ''Invalid Time'')
         | Inr (Some t) \<Rightarrow>
             (case toLocaleDateString rt t of
                Inl x \<Rightarrow> (''Error in date'', ''Error in time'')
              | Inr d \<Rightarrow>
                  (case toLocaleTimeString rt t of
                     Inl x \<Rightarrow> (''Error in date'', ''Error in time'')
                   | Inr tm \<Rightarrow> (d, tm))))
      else (''Date not available'', ''Time not available''))"

text \<open>The local variables of renderEventCard after line 89.\<close>

record display_event =
  eventStartDateTimeString :: jsval
  eventDescription :: jsval
  signUpLink :: jsval
  graphicUrl :: jsval
  formattedDate :: string
  formattedTime :: string

definition transformRow :: "runtime \<Rightarrow> jsval \<Rightarrow> exn + display_event" where
  "transformRow rt item =
     (case resolveField item ''Start'' ''c-xM1UXlWtET'' of
        Inl x \<Rightarrow> Inl x
      | Inr start \<Rightarrow>
     (case resolveField item ''Description'' ''c-CuhtPto9h7'' of
        Inl x \<Rightarrow> Inl x
      | Inr descr \<Rightarrow>
     (case resolveField item ''Sign Up Link'' ''c-oQ9f2MSLrG'' of
        Inl x \<Rightarrow> Inl x
      | Inr link \<Rightarrow>
     (case resolveField item ''GraphicURL'' ''c-65xmsGtRJz'' of
        Inl x \<Rightarrow> Inl x
      | Inr graphic \<Rightarrow>
          Inr \<lparr> eventStartDateTimeString = start,
                eventDescription = descr,
                signUpLink = link,
                graphicUrl = graphic,
                formattedDate = fst (formatStart rt start),
                formattedTime = snd (formatStart rt start) \<rparr>))))"

text \<open>
  Lines 91 to 97: what pressing the button does. Opening the URL may fail; the failure is
  logged and changes nothing on the screen.
\<close>

datatype effect = OpenURL jsval | ConsoleWarn string

definition handleSignUp :: "jsval \<Rightarrow> effect" where
  "handleSignUp link =
     (if toBoolean link then OpenURL link
      else ConsoleWarn ''Sign Up Link is missing for this event.'')"

text \<open>
  Lines 99 to 132: the card. An element written \<^verbatim>\<open>cond ? <X/> : null\<close> is an
  option; the last child is either the pressable button or the placeholder text.
\<close>

datatype action = Pressable string effect | PlaceholderText string

record event_card =
  cardImage :: "jsval option"
  dateText :: string
  timeText :: string
  descriptionText :: "jsval option"
  cardAction :: action

definition cardOf :: "display_event \<Rightarrow> event_card" where
  "cardOf ev =
     \<lparr> cardImage = (if toBoolean (graphicUrl ev) then Some (graphicUrl ev) else None),
       dateText = ''Date: '' @ formattedDate ev,
       timeText = ''Time: '' @ formattedTime ev,
       descriptionText =
         (if toBoolean (eventDescription ev) then Some (eventDescription ev) else None),
       cardAction =
         (if toBoolean (signUpLink ev)
          then Pressable ''Sign Up'' (handleSignUp (signUpLink ev))
          else PlaceholderText ''(No sign-up link provided)'') \<rparr>"

definition renderEventCard :: "runtime \<Rightarrow> jsval \<Rightarrow> nat \<Rightarrow> exn + event_card" where
  "renderEventCard rt item index =
     (case transformRow rt item of Inl x \<Rightarrow> Inl x | Inr ev \<Rightarrow> Inr (cardOf ev))"

section \<open>The fetch on activation (fetchData, lines 17 to 59)\<close>

text \<open>
  The three state variables of lines 12 to 14. \<open>error\<close> is
  \<^verbatim>\<open>string | null\<close>.
\<close>

record screen_state =
  data :: jsval
  loading :: bool
  error :: "string option"

text \<open>
  \<^verbatim>\<open>${n}\<close> for a non-negative integer \<open>n\<close>: its decimal digits.
\<close>

definition digitChar :: "nat \<Rightarrow> char" where
  "digitChar d = ''0123456789'' ! d"

fun numberToString :: "nat \<Rightarrow> string" where
  "numberToString n =
     (if n < 10 then [digitChar n]
      else numberToString (n div 10) @ [digitChar (n mod 10)])"

declare numberToString.simps [simp del]

text \<open>
  Identifiers are block scoped. Line 24 declares \<^verbatim>\<open>const requestTimeout = 30000\<close>
  inside the block of \<^verbatim>\<open>try\<close> (lines 21 to 44); the catch clause (lines 44 to 54)
  is another block, which binds \<^verbatim>\<open>e\<close> only, and no enclosing scope (the effect
  callback, the component, the module, the globals) declares the name. A scope lists the
  numeric constants visible in a block; reading a name that no visible declaration binds
  throws a ReferenceError.
\<close>

type_synonym scope = "(string \<times> nat) list"

definition tryBlockScope :: scope where
  "tryBlockScope = [(''requestTimeout'', 30000)]"

definition catchClauseScope :: scope where
  "catchClauseScope = []"

definition readIdentifier :: "scope \<Rightarrow> string \<Rightarrow> exn + nat" where
  "readIdentifier sc x =
     (case map_of sc x of
        None \<Rightarrow> Inl (ReferenceError (x @ '' is not defined''))
      | Some v \<Rightarrow> Inr v)"

definition apiUrl :: string where
  "apiUrl = ''https://coda.io/apis/v1/docs/OySK5JOQh-/tables/table-X_KTN98R_x/rows''"

text \<open>
  What a block leaves behind: it runs to its end, returns early, or throws. What is thrown
  is either the rejection of the HTTP client or an exception of the language.
\<close>

datatype thrown = AxiosRejection axios_error | Exception exn

datatype completion =
    Normal screen_state
  | Return screen_state
  | Throw thrown screen_state

text \<open>
  \<^verbatim>\<open>process.env.EXPO_PUBLIC_CODA_API_TOKEN\<close> is a string or
  \<^verbatim>\<open>undefined\<close>; \<^verbatim>\<open>!apiToken\<close> holds for
  \<^verbatim>\<open>undefined\<close> and for the empty string.
\<close>

fun tokenMissing :: "string option \<Rightarrow> bool" where
  "tokenMissing None = True"
| "tokenMissing (Some t) = (t = [])"

definition tokenText :: "string option \<Rightarrow> string" where
  "tokenText tok = (case tok of None \<Rightarrow> ''undefined'' | Some t \<Rightarrow> t)"

definition codaRequest :: "string option \<Rightarrow> nat \<Rightarrow> request" where
  "codaRequest apiToken t =
     \<lparr> url = apiUrl,
       headers = [(''Authorization'', ''Bearer '' @ tokenText apiToken),
                  (''Accept'', ''application/json'')],
       timeout = t \<rparr>"

text \<open>Lines 22 to 42. The second component lists the HTTP requests issued.\<close>

definition tryBlock ::
  "runtime \<Rightarrow> string option \<Rightarrow> screen_state \<Rightarrow> completion \<times> request list" where
  "tryBlock rt apiToken s =
     (if tokenMissing apiToken then
        (Return (s\<lparr> error := Some
           ''API Token is not configured. Please set EXPO_PUBLIC_CODA_API_TOKEN in your .env file.'',
           loading := False \<rparr>), [])
      else
        (case readIdentifier tryBlockScope ''requestTimeout'' of
           Inl x \<Rightarrow> (Throw (Exception x) s, [])
         | Inr t \<Rightarrow>
             (case axiosGet rt (codaRequest apiToken t) of
                Fulfilled r \<Rightarrow> (Normal (s\<lparr> data := responseData r \<rparr>), [codaRequest apiToken t])
              | Rejected a \<Rightarrow> (Throw (AxiosRejection a) s, [codaRequest apiToken t]))))"

text \<open>
  Lines 44 to 53, evaluated in the scope \<open>sc\<close>. An exception of the language is no
  cancellation and has neither \<^verbatim>\<open>response\<close> nor \<^verbatim>\<open>request\<close>.
  The division of line 46 is exact on a multiple of 1000.
\<close>

definition catchClauseIn ::
  "scope \<Rightarrow> runtime \<Rightarrow> thrown \<Rightarrow> screen_state \<Rightarrow> exn + screen_state" where
  "catchClauseIn sc rt e s =
     (case e of
        Exception x \<Rightarrow> Inr (s\<lparr> error := Some (''Error: '' @ exnMessage x) \<rparr>)
      | AxiosRejection a \<Rightarrow>
          if isCancel a then
            (case readIdentifier sc ''requestTimeout'' of
               Inl x \<Rightarrow> Inl x
             | Inr t \<Rightarrow>
                 Inr (s\<lparr> error := Some (''Request to Coda Table API timed out after ''
                        @ numberToString (t div 1000) @ '' seconds (axios).'') \<rparr>))
          else
            (case errResponse a of
               Some r \<Rightarrow>
                 Inr (s\<lparr> error := Some (''Server error! Status: '' @ numberToString (status r)
                        @ ''. Message: '' @ jsonStringify rt (responseData r)) \<rparr>)
             | None \<Rightarrow>
                 if errRequest a
                 then Inr (s\<lparr> error := Some ''No response received from Coda Table API (axios).'' \<rparr>)
                 else Inr (s\<lparr> error := Some (''Error: '' @ errMessage a) \<rparr>)))"

definition catchClause :: "runtime \<Rightarrow> thrown \<Rightarrow> screen_state \<Rightarrow> exn + screen_state" where
  "catchClause = catchClauseIn catchClauseScope"

text \<open>Lines 54 to 56.\<close>

definition finallyClause :: "screen_state \<Rightarrow> screen_state" where
  "finallyClause s = s\<lparr> loading := False \<rparr>"

text \<open>
  The whole of fetchData: the state it leaves, the requests it issued, and the exception it
  ends with when the catch clause itself throws (the promise is then rejected, and nobody
  handles the rejection: line 59 drops the promise).
\<close>

record fetch_result =
  finalState :: screen_state
  issued :: "request list"
  uncaught :: "exn option"

definition fetchData :: "runtime \<Rightarrow> string option \<Rightarrow> fetch_result" where
  "fetchData rt apiToken =
     (case tryBlock rt apiToken \<lparr> data = JNull, loading = True, error = None \<rparr> of
        (Normal s, reqs) \<Rightarrow>
          \<lparr> finalState = finallyClause s, issued = reqs, uncaught = None \<rparr>
      | (Return s, reqs) \<Rightarrow>
          \<lparr> finalState = finallyClause s, issued = reqs, uncaught = None \<rparr>
      | (Throw e s, reqs) \<Rightarrow>
          (case catchClause rt e s of
             Inr s' \<Rightarrow> \<lparr> finalState = finallyClause s', issued = reqs, uncaught = None \<rparr>
           | Inl x \<Rightarrow> \<lparr> finalState = finallyClause s, issued = reqs, uncaught = Some x \<rparr>))"

section \<open>Rendering (HomeScreen, lines 135 to 176)\<close>

text \<open>
  Every branch shows the same header; the branches differ in what stands below it: a text,
  the red error text, or the list element with its \<^verbatim>\<open>data\<close> property.
\<close>

datatype content = ThemedText string | RedText string | FlatList jsval

record screen =
  headerTitle :: string
  below :: content

definition page :: "content \<Rightarrow> screen" where
  "page c = \<lparr> headerTitle = ''Actions & Events'', below = c \<rparr>"

text \<open>
  \<^verbatim>\<open>data.items\<close> and \<^verbatim>\<open>data.items.length\<close> are read behind
  \<^verbatim>\<open>&&\<close>, on truthy values only, so neither read throws. Neither a string, a
  number, a boolean nor an array has a property \<^verbatim>\<open>items\<close>.
\<close>

fun itemsOf :: "jsval \<Rightarrow> jsval" where
  "itemsOf (JObj ps) = (case map_of ps ''items'' of None \<Rightarrow> JUndefined | Some v \<Rightarrow> v)"
| "itemsOf v = JUndefined"

fun lengthOf :: "jsval \<Rightarrow> jsval" where
  "lengthOf (JArr xs) = JNum (Fin (of_nat (length xs)))"
| "lengthOf (JStr s) = JNum (Fin (of_nat (length s)))"
| "lengthOf (JObj ps) = (case map_of ps ''length'' of None \<Rightarrow> JUndefined | Some v \<Rightarrow> v)"
| "lengthOf v = JUndefined"

fun numPositive :: "jsnum \<Rightarrow> bool" where
  "numPositive NaN = False"
| "numPositive (Fin q) = (0 < q)"
| "numPositive PosInf = True"
| "numPositive NegInf = False"

text \<open>\<^verbatim>\<open>v > 0\<close>: a number is compared as it is, anything else through
  ToNumber, which can throw on an object.\<close>

fun greaterThanZero :: "runtime \<Rightarrow> jsval \<Rightarrow> exn + bool" where
  "greaterThanZero rt (JNum n) = Inr (numPositive n)"
| "greaterThanZero rt v =
     (case toNumber rt v of Inl x \<Rightarrow> Inl x | Inr n \<Rightarrow> Inr (numPositive n))"

text \<open>Line 165: \<^verbatim>\<open>data && data.items && data.items.length > 0\<close>.\<close>

definition hasItems :: "runtime \<Rightarrow> jsval \<Rightarrow> exn + bool" where
  "hasItems rt d =
     (if toBoolean d then
        (if toBoolean (itemsOf d) then greaterThanZero rt (lengthOf (itemsOf d))
         else Inr False)
      else Inr False)"

definition loadedScreen :: "runtime \<Rightarrow> screen_state \<Rightarrow> exn + screen" where
  "loadedScreen rt s =
     (case hasItems rt (data s) of
        Inl x \<Rightarrow> Inl x
      | Inr True \<Rightarrow> Inr (page (FlatList (itemsOf (data s))))
      | Inr False \<Rightarrow> Inr (page (ThemedText ''No events found.'')))"

definition HomeScreen :: "runtime \<Rightarrow> screen_state \<Rightarrow> exn + screen" where
  "HomeScreen rt s =
     (if loading s then Inr (page (ThemedText ''Loading event data from Coda...''))
      else
        (case error s of
           None \<Rightarrow> loadedScreen rt s
         | Some msg \<Rightarrow>
             if msg = [] then loadedScreen rt s
             else Inr (page (RedText (''Error: '' @ msg)))))"

text \<open>
  Line 169, the key of a row: \<^verbatim>\<open>item.id || item.href || Math.random().toString()\<close>.
  Reading a property of \<^verbatim>\<open>null\<close> or \<^verbatim>\<open>undefined\<close> throws; an object
  gives its own property or \<^verbatim>\<open>undefined\<close>; a string, a number, a boolean and an
  array have no property \<^verbatim>\<open>id\<close> or \<^verbatim>\<open>href\<close>.
\<close>

fun readProperty :: "jsval \<Rightarrow> string \<Rightarrow> exn + jsval" where
  "readProperty JUndefined k = Inl (TypeError ''Cannot read properties of undefined'')"
| "readProperty JNull k = Inl (TypeError ''Cannot read properties of null'')"
| "readProperty (JObj ps) k = Inr (case map_of ps k of None \<Rightarrow> JUndefined | Some v \<Rightarrow> v)"
| "readProperty v k = Inr JUndefined"

definition keyExtractor :: "runtime \<Rightarrow> jsval \<Rightarrow> nat \<Rightarrow> exn + jsval" where
  "keyExtractor rt item index =
     (case readProperty item ''id'' of
        Inl x \<Rightarrow> Inl x
      | Inr a \<Rightarrow>
          if toBoolean a then Inr a
          else
            (case readProperty item ''href'' of
               Inl x \<Rightarrow> Inl x
             | Inr b \<Rightarrow> if toBoolean b then Inr b else Inr (JStr (randomText rt index))))"

text \<open>
  Modelled from the spec: the list component \<^verbatim>\<open>FlatList\<close> and the mounting of
  its rows, which are React Native's and React's and not in the repository. The specification
  has the list render one card per item, in the order received. The component calls
  \<^verbatim>\<open>keyExtractor\<close> and \<^verbatim>\<open>renderItem\<close> with each element of its
  \<^verbatim>\<open>data\<close> array and the element's index, in the order of the array, and mounts
  what \<^verbatim>\<open>renderItem\<close> returns. Nothing in the file catches an exception thrown
  on the way, so the first one fails the whole list and no card is mounted. Mounting throws
  when a child of a text element is an object (the description of lines 120 to 122 is the
  one child that is not a string by construction); a string or a number is shown, a boolean,
  \<^verbatim>\<open>null\<close> and \<^verbatim>\<open>undefined\<close> show nothing, an array shows its
  elements. The image component is handed the URL as it is; what it does with a URL that is
  no string is not modelled. Rendering only the rows near the viewport is left out, and so is
  what the list does with \<^verbatim>\<open>data\<close> that is no array.
\<close>

fun validChild :: "jsval \<Rightarrow> bool" where
  "validChild (JObj ps) = False"
| "validChild (JArr xs) = list_all validChild xs"
| "validChild v = True"

definition mountCard :: "event_card \<Rightarrow> exn + event_card" where
  "mountCard c =
     (case descriptionText c of
        None \<Rightarrow> Inr c
      | Some v \<Rightarrow>
          if validChild v then Inr c
          else Inl (OtherError ''Objects are not valid as a React child''))"

definition renderRow :: "runtime \<Rightarrow> nat \<times> jsval \<Rightarrow> exn + jsval \<times> event_card" where
  "renderRow rt p =
     (case keyExtractor rt (snd p) (fst p) of
        Inl x \<Rightarrow> Inl x
      | Inr k \<Rightarrow>
          (case renderEventCard rt (snd p) (fst p) of
             Inl x \<Rightarrow> Inl x
           | Inr c \<Rightarrow>
               (case mountCard c of
                  Inl x \<Rightarrow> Inl x
                | Inr m \<Rightarrow> Inr (k, m))))"

fun allOrNothing :: "(exn + 'a) list \<Rightarrow> exn + 'a list" where
  "allOrNothing [] = Inr []"
| "allOrNothing (Inl x # rs) = Inl x"
| "allOrNothing (Inr v # rs) =
     (case allOrNothing rs of Inl x \<Rightarrow> Inl x | Inr vs \<Rightarrow> Inr (v # vs))"

definition flatListRows :: "runtime \<Rightarrow> jsval list \<Rightarrow> exn + (jsval \<times> event_card) list" where
  "flatListRows rt xs = allOrNothing (map (renderRow rt) (enumerate 0 xs))"


text \<open>
  The three states of the screen, read off the tests of lines 135 and 147 in their order.
\<close>

datatype screen_mode = Loading | Error string | Loaded jsval

definition modeOf :: "screen_state \<Rightarrow> screen_mode" where
  "modeOf s =
     (if loading s then Loading
      else
        (case error s of
           None \<Rightarrow> Loaded (data s)
         | Some msg \<Rightarrow> if msg = [] then Loaded (data s) else Error msg))"

section \<open>A runtime for the examples\<close>

text \<open>
  The theorems hold for every runtime. The examples need one to compute with. This one
  follows ECMAScript on the values the examples feed it: the ISO timestamp
  \<^verbatim>\<open>2025-03-01T18:30:00Z\<close> is the instant 1740853800000, shown in the locale
  en-US and the time zone UTC; other strings, \<^verbatim>\<open>not-a-date\<close> and the empty
  string among them, are no dates; an object whose own property
  \<^verbatim>\<open>toString\<close> is not callable cannot be converted to a primitive (the
  inherited \<^verbatim>\<open>valueOf\<close> returns the object itself), so the Date constructor
  throws a TypeError on it. Everywhere else it gives a fixed answer, which no theorem rests on.
  The HTTP client settles the same way on every request.
\<close>

definition sampleNewDate :: "jsval \<Rightarrow> exn + int option" where
  "sampleNewDate v =
     (case v of
        JStr s \<Rightarrow>
          if s = ''2025-03-01T18:30:00Z'' then Inr (Some 1740853800000) else Inr None
      | JObj ps \<Rightarrow>
          (case map_of ps ''toString'' of
             None \<Rightarrow> Inr None
           | Some f \<Rightarrow> Inl (TypeError ''Cannot convert object to primitive value''))
      | _ \<Rightarrow> Inr None)"

definition sampleRuntime :: "axios_outcome \<Rightarrow> runtime" where
  "sampleRuntime outcome =
     \<lparr> newDate = sampleNewDate,
       toLocaleDateString =
         (\<lambda>t. Inr (if t = 1740853800000 then ''March 1, 2025'' else ''January 1, 1970'')),
       toLocaleTimeString =
         (\<lambda>t. Inr (if t = 1740853800000 then ''6:30 PM'' else ''12:00 AM'')),
       jsonStringify =
         (\<lambda>v. if v = JObj [(''msg'', JStr ''fail'')] then ''{\"msg\":\"fail\"}'' else ''null''),
       toNumber = (\<lambda>v. Inr NaN),
       axiosGet = (\<lambda>req. outcome),
       randomText = (\<lambda>i. ''0.'' @ numberToString (Suc i)) \<rparr>"

definition failResponse :: response where
  "failResponse = \<lparr> status = 500, responseData = JObj [(''msg'', JStr ''fail'')] \<rparr>"

definition serverError :: axios_error where
  "serverError =
     \<lparr> isCancel = False, errResponse = Some failResponse, errRequest = True,
       errMessage = ''Request failed with status code 500'' \<rparr>"

text \<open>
  How the HTTP client rejects when its own timeout of 30000 ms expires: no response, the
  request attached, and no cancellation (the client reserves that for a cancel token or an
  abort signal, and line 37 passes neither).
\<close>

definition timeoutError :: axios_error where
  "timeoutError =
     \<lparr> isCancel = False, errResponse = None, errRequest = True,
       errMessage = ''timeout of 30000ms exceeded'' \<rparr>"

definition cancelError :: axios_error where
  "cancelError =
     \<lparr> isCancel = True, errResponse = None, errRequest = False, errMessage = ''canceled'' \<rparr>"

definition rowOf :: "(string \<times> jsval) list \<Rightarrow> jsval" where
  "rowOf vs = JObj [(''id'', JStr ''i-1''), (''values'', JObj vs)]"


definition okResponse :: "jsval list \<Rightarrow> response" where
  "okResponse xs = \<lparr> status = 200, responseData = JObj [(''items'', JArr xs)] \<rparr>"

section \<open>Notions the claims are stated with\<close>

text \<open>\<^verbatim>\<open>item.values\<close> of an object, and \<^verbatim>\<open>a || b\<close> of two values.\<close>

definition valuesOf :: "(string \<times> jsval) list \<Rightarrow> jsval" where
  "valuesOf ps = (case map_of ps ''values'' of None \<Rightarrow> JUndefined | Some vs \<Rightarrow> vs)"

definition orElse :: "jsval \<Rightarrow> jsval \<Rightarrow> jsval" where
  "orElse a b = (if toBoolean a then a else b)"

fun isActionable :: "action \<Rightarrow> bool" where
  "isActionable (Pressable label eff) = True"
| "isActionable (PlaceholderText t) = False"

text \<open>
  Field resolution as the specification words it, by the presence of keys in the
  \<^verbatim>\<open>values\<close> mapping \<open>vs\<close>: the human-readable key if present, else the
  code key if present, else undefined.
\<close>

definition specResolve :: "(string \<times> jsval) list \<Rightarrow> string \<Rightarrow> string \<Rightarrow> jsval" where
  "specResolve vs name code =
     (case map_of vs name of
        Some v \<Rightarrow> v
      | None \<Rightarrow> (case map_of vs code of Some w \<Rightarrow> w | None \<Rightarrow> JUndefined))"

text \<open>
  Field resolution by truthiness: the value under the human-readable key if it is truthy,
  else whatever stands under the code key, undefined when that key is absent.
\<close>

definition truthyResolve :: "(string \<times> jsval) list \<Rightarrow> string \<Rightarrow> string \<Rightarrow> jsval" where
  "truthyResolve vs name code =
     (case map_of vs name of
        Some v \<Rightarrow>
          if toBoolean v then v
          else (case map_of vs code of Some w \<Rightarrow> w | None \<Rightarrow> JUndefined)
      | None \<Rightarrow> (case map_of vs code of Some w \<Rightarrow> w | None \<Rightarrow> JUndefined))"

text \<open>
  The outcomes of the two formatted strings. \<open>realFormatted\<close>: the start value is a
  valid date and the pair is what the two formatters return for it. \<open>formattingThrows\<close>:
  the Date constructor or one of the two formatters throws.
\<close>

definition realFormatted :: "runtime \<Rightarrow> jsval \<Rightarrow> string \<times> string \<Rightarrow> bool" where
  "realFormatted rt start out =
     (case newDate rt start of
        Inr (Some t) \<Rightarrow>
          toLocaleDateString rt t = Inr (fst out) \<and> toLocaleTimeString rt t = Inr (snd out)
      | _ \<Rightarrow> False)"

definition formattingThrows :: "runtime \<Rightarrow> jsval \<Rightarrow> bool" where
  "formattingThrows rt start =
     (case newDate rt start of
        Inl x \<Rightarrow> True
      | Inr None \<Rightarrow> False
      | Inr (Some t) \<Rightarrow>
          (case toLocaleDateString rt t of
             Inl x \<Rightarrow> True
           | Inr d \<Rightarrow> (case toLocaleTimeString rt t of Inl x \<Rightarrow> True | Inr tm \<Rightarrow> False)))"

text \<open>
  The specification's list for the two strings: both non-empty, and a real formatted value,
  or the two \<^verbatim>\<open>not available\<close> sentinels when no start value resolved, or the two
  \<^verbatim>\<open>Invalid\<close> sentinels when one resolved and is no valid date.
\<close>

definition specFormatted :: "runtime \<Rightarrow> jsval \<Rightarrow> string \<times> string \<Rightarrow> bool" where
  "specFormatted rt start out =
     (fst out \<noteq> [] \<and> snd out \<noteq> [] \<and>
      ((toBoolean start \<and> realFormatted rt start out)
       \<or> (\<not> toBoolean start \<and> out = (''Date not available'', ''Time not available''))
       \<or> (toBoolean start \<and> newDate rt start = Inr None
            \<and> out = (''Invalid Date'', ''Invalid Time''))))"

text \<open>The list with the fourth pair, which lines 85 to 88 assign when something throws.\<close>

definition fourOutcomes :: "runtime \<Rightarrow> jsval \<Rightarrow> string \<times> string \<Rightarrow> bool" where
  "fourOutcomes rt start out =
     ((toBoolean start \<and> realFormatted rt start out)
      \<or> (\<not> toBoolean start \<and> out = (''Date not available'', ''Time not available''))
      \<or> (toBoolean start \<and> newDate rt start = Inr None
           \<and> out = (''Invalid Date'', ''Invalid Time''))
      \<or> (toBoolean start \<and> formattingThrows rt start
           \<and> out = (''Error in date'', ''Error in time'')))"



text \<open>
  The built-in formatters give every valid date some text: neither returns the empty string.
\<close>

definition nonEmptyFormatters :: "runtime \<Rightarrow> bool" where
  "nonEmptyFormatters rt =
     (\<forall>t. toLocaleDateString rt t \<noteq> Inr [] \<and> toLocaleTimeString rt t \<noteq> Inr [])"

text \<open>Rows for the examples.\<close>

definition unconvertible :: jsval where
  "unconvertible = JObj [(''toString'', JNum (Fin 1))]"

definition plainRuntime :: runtime where
  "plainRuntime = sampleRuntime (Fulfilled (okResponse []))"

section \<open>Facts about the fetch\<close>

lemma readIdentifier_try: "readIdentifier tryBlockScope ''requestTimeout'' = Inr 30000"
  by (simp add: readIdentifier_def tryBlockScope_def)

lemma readIdentifier_catch:
  "readIdentifier catchClauseScope ''requestTimeout''
     = Inl (ReferenceError ''requestTimeout is not defined'')"
  by (simp add: readIdentifier_def catchClauseScope_def)


lemma fetchData_rejected:
  assumes "\<not> tokenMissing apiToken"
    and "axiosGet rt (codaRequest apiToken 30000) = Rejected a"
  shows "fetchData rt apiToken =
           (case catchClause rt (AxiosRejection a) \<lparr> data = JNull, loading = True, error = None \<rparr> of
              Inr s' \<Rightarrow>
                \<lparr> finalState = finallyClause s', issued = [codaRequest apiToken 30000],
                  uncaught = None \<rparr>
            | Inl x \<Rightarrow>
                \<lparr> finalState = \<lparr> data = JNull, loading = False, error = None \<rparr>,
                  issued = [codaRequest apiToken 30000], uncaught = Some x \<rparr>)"
  using assms
  by (simp add: fetchData_def tryBlock_def readIdentifier_try finallyClause_def
      split: sum.splits)

lemma numberToString_500: "numberToString 500 = ''500''"
  by (simp add: numberToString.simps digitChar_def)

lemma numberToString_30: "numberToString 30 = ''30''"
  by (simp add: numberToString.simps digitChar_def)

lemma cancelled_fetch:
  assumes "\<not> tokenMissing apiToken"
    and "axiosGet rt (codaRequest apiToken 30000) = Rejected a"
    and "isCancel a"
  shows "fetchData rt apiToken =
           \<lparr> finalState = \<lparr> data = JNull, loading = False, error = None \<rparr>,
             issued = [codaRequest apiToken 30000],
             uncaught = Some (ReferenceError ''requestTimeout is not defined'') \<rparr>"
  using assms
  by (simp add: fetchData_rejected catchClause_def catchClauseIn_def readIdentifier_catch)

lemma cancelled_fetch_intended:
  assumes "isCancel a"
  shows "catchClauseIn tryBlockScope rt (AxiosRejection a) s =
           Inr (s\<lparr> error := Some ''Request to Coda Table API timed out after 30 seconds (axios).'' \<rparr>)"
  using assms
  by (simp add: catchClauseIn_def readIdentifier_try numberToString_30)


lemma allOrNothing_first_failure: "allOrNothing (Inl x # rs) = Inl x"
  by simp


lemma keyExtractor_null:
  "keyExtractor rt JNull index = Inl (TypeError ''Cannot read properties of null'')"
  by (simp add: keyExtractor_def)

lemma flatListRows_null_item:
  "flatListRows rt (JNull # xs) = Inl (TypeError ''Cannot read properties of null'')"
  by (simp add: flatListRows_def enumerate_simps renderRow_def keyExtractor_null)

section \<open>Facts about the row transform\<close>

lemma columnValue_object: "columnValue (JObj ps) k = Inr (optionalIndex (valuesOf ps) k)"
  by (simp add: valuesOf_def split: option.splits)

lemma resolveField_object:
  "resolveField (JObj ps) name code
     = Inr (orElse (optionalIndex (valuesOf ps) name) (optionalIndex (valuesOf ps) code))"
  by (simp add: resolveField_def columnValue_object orElse_def del: columnValue.simps)

lemma transformRow_object:
  "transformRow rt (JObj ps) =
     Inr \<lparr> eventStartDateTimeString =
             orElse (optionalIndex (valuesOf ps) ''Start'') (optionalIndex (valuesOf ps) ''c-xM1UXlWtET''),
           eventDescription =
             orElse (optionalIndex (valuesOf ps) ''Description'') (optionalIndex (valuesOf ps) ''c-CuhtPto9h7''),
           signUpLink =
             orElse (optionalIndex (valuesOf ps) ''Sign Up Link'') (optionalIndex (valuesOf ps) ''c-oQ9f2MSLrG''),
           graphicUrl =
             orElse (optionalIndex (valuesOf ps) ''GraphicURL'') (optionalIndex (valuesOf ps) ''c-65xmsGtRJz''),
           formattedDate = fst (formatStart rt
             (orElse (optionalIndex (valuesOf ps) ''Start'') (optionalIndex (valuesOf ps) ''c-xM1UXlWtET''))),
           formattedTime = snd (formatStart rt
             (orElse (optionalIndex (valuesOf ps) ''Start'') (optionalIndex (valuesOf ps) ''c-xM1UXlWtET''))) \<rparr>"
  by (simp add: transformRow_def resolveField_object)

lemma orElse_truthyResolve:
  "orElse (optionalIndex (JObj vs) name) (optionalIndex (JObj vs) code) = truthyResolve vs name code"
  by (simp add: orElse_def truthyResolve_def split: option.splits)

lemma formatStart_falsy:
  "\<not> toBoolean start \<Longrightarrow> formatStart rt start = (''Date not available'', ''Time not available'')"
  by (simp add: formatStart_def)

lemma formatStart_invalid:
  "toBoolean start \<Longrightarrow> newDate rt start = Inr None
     \<Longrightarrow> formatStart rt start = (''Invalid Date'', ''Invalid Time'')"
  by (simp add: formatStart_def)

lemma formatStart_fourOutcomes: "fourOutcomes rt start (formatStart rt start)"
  by (auto simp: fourOutcomes_def formatStart_def realFormatted_def formattingThrows_def
      split: sum.splits option.splits)

lemma formatStart_empty:
  assumes "fst (formatStart rt start) = [] \<or> snd (formatStart rt start) = []"
  shows "toBoolean start \<and> realFormatted rt start (formatStart rt start)"
  using assms
  by (auto simp: formatStart_def realFormatted_def split: sum.splits option.splits if_splits)

lemma transformRow_object_start:
  obtains ev where "transformRow rt (JObj ps) = Inr ev"
    and "eventStartDateTimeString ev
           = orElse (optionalIndex (valuesOf ps) ''Start'') (optionalIndex (valuesOf ps) ''c-xM1UXlWtET'')"
    and "formattedDate ev = fst (formatStart rt (eventStartDateTimeString ev))"
    and "formattedTime ev = snd (formatStart rt (eventStartDateTimeString ev))"
  by (simp add: transformRow_object del: optionalIndex.simps)

lemma renderEventCard_object: "\<exists>c. renderEventCard rt (JObj ps) index = Inr c"
  by (simp add: renderEventCard_def transformRow_object)



lemma null_item_fails_the_list:
  "flatListRows plainRuntime [rowOf [], JNull] = Inl (TypeError ''Cannot read properties of null'')"
  by (simp add: flatListRows_def enumerate_simps renderRow_def rowOf_def keyExtractor_def
      renderEventCard_def transformRow_object mountCard_def cardOf_def valuesOf_def orElse_def)

section \<open>The claims\<close>

text \<open>
  C1. With no API token in the environment, fetchData leaves the screen in the Error state,
  the message contains \<^verbatim>\<open>API Token is not configured\<close>, the screen shows it,
  and no HTTP request was issued.
\<close>

theorem missing_token_error:
  "modeOf (finalState (fetchData rt None))
     = Error ''API Token is not configured. Please set EXPO_PUBLIC_CODA_API_TOKEN in your .env file.''
   \<and> sublist ''API Token is not configured''
         ''API Token is not configured. Please set EXPO_PUBLIC_CODA_API_TOKEN in your .env file.''
   \<and> issued (fetchData rt None) = []
   \<and> uncaught (fetchData rt None) = None
   \<and> HomeScreen rt (finalState (fetchData rt None))
       = Inr (page (RedText (''Error: '' @
           ''API Token is not configured. Please set EXPO_PUBLIC_CODA_API_TOKEN in your .env file.'')))"
proof -
  have run: "fetchData rt None =
      \<lparr> finalState = \<lparr> data = JNull, loading = False, error = Some
          ''API Token is not configured. Please set EXPO_PUBLIC_CODA_API_TOKEN in your .env file.'' \<rparr>,
        issued = [], uncaught = None \<rparr>"
    by (simp add: fetchData_def tryBlock_def finallyClause_def)
  have sub: "sublist ''API Token is not configured''
      (''API Token is not configured'' @ ''. Please set EXPO_PUBLIC_CODA_API_TOKEN in your .env file.'')"
    by (rule sublist_append_rightI)
  show ?thesis
    using sub by (simp add: run modeOf_def HomeScreen_def)
qed

text \<open>
  C2, as stated, fails. The start value of a row can be an object that cannot be converted
  to a primitive; the Date constructor throws on it, the handler of lines 85 to 88 runs, and
  the two strings are \<^verbatim>\<open>Error in date\<close> and \<^verbatim>\<open>Error in time\<close>: none
  of the three outcomes the claim lists.
\<close>

theorem formatted_counterexample:
  "transformRow plainRuntime (rowOf [(''Start'', unconvertible)])
     = Inr \<lparr> eventStartDateTimeString = unconvertible,
             eventDescription = JUndefined,
             signUpLink = JUndefined,
             graphicUrl = JUndefined,
             formattedDate = ''Error in date'',
             formattedTime = ''Error in time'' \<rparr>
   \<and> newDate plainRuntime unconvertible
     = Inl (TypeError ''Cannot convert object to primitive value'')
   \<and> \<not> specFormatted plainRuntime unconvertible (''Error in date'', ''Error in time'')"
  by (simp add: rowOf_def resolveField_def transformRow_def formatStart_def plainRuntime_def
      sampleRuntime_def sampleNewDate_def unconvertible_def specFormatted_def realFormatted_def)

text \<open>
  C2, amended. For every row object the transform returns, both formatted strings are
  non-empty, and they are one of four pairs: what the two formatters return for the start
  value (truthy, a valid date); the two \<^verbatim>\<open>not available\<close> sentinels (start value
  falsy); the two \<^verbatim>\<open>Invalid\<close> sentinels (truthy, and the constructed date has no
  time value); or \<^verbatim>\<open>Error in date\<close> and \<^verbatim>\<open>Error in time\<close> (truthy,
  and the constructor or a formatter throws). The formatters are the runtime's, which give
  every valid date some text.
\<close>

theorem formatted_four_outcomes:
  assumes "nonEmptyFormatters rt"
  shows "\<exists>ev. transformRow rt (JObj ps) = Inr ev
      \<and> formattedDate ev \<noteq> [] \<and> formattedTime ev \<noteq> []
      \<and> fourOutcomes rt (eventStartDateTimeString ev) (formattedDate ev, formattedTime ev)"
proof -
  obtain ev where ev: "transformRow rt (JObj ps) = Inr ev"
    and d: "formattedDate ev = fst (formatStart rt (eventStartDateTimeString ev))"
    and t: "formattedTime ev = snd (formatStart rt (eventStartDateTimeString ev))"
    by (rule transformRow_object_start)
  have pair: "(formattedDate ev, formattedTime ev) = formatStart rt (eventStartDateTimeString ev)"
    by (simp add: d t)
  have four: "fourOutcomes rt (eventStartDateTimeString ev) (formattedDate ev, formattedTime ev)"
    unfolding pair by (rule formatStart_fourOutcomes)
  have full: "formattedDate ev \<noteq> [] \<and> formattedTime ev \<noteq> []"
  proof (rule ccontr)
    assume "\<not> (formattedDate ev \<noteq> [] \<and> formattedTime ev \<noteq> [])"
    then have e: "fst (formatStart rt (eventStartDateTimeString ev)) = []
        \<or> snd (formatStart rt (eventStartDateTimeString ev)) = []"
      by (simp add: d t)
    from formatStart_empty [OF e]
    have real: "realFormatted rt (eventStartDateTimeString ev)
        (formatStart rt (eventStartDateTimeString ev))"
      by simp
    with assms e show False
      by (auto simp: realFormatted_def nonEmptyFormatters_def split: sum.splits option.splits)
  qed
  from ev four full show ?thesis by blast
qed

theorem formatted_four_outcomes_witness:
  "nonEmptyFormatters plainRuntime
   \<and> (\<exists>ev. transformRow plainRuntime (rowOf [(''Start'', JStr ''2025-03-01T18:30:00Z'')]) = Inr ev
      \<and> formattedDate ev = ''March 1, 2025'' \<and> formattedTime ev = ''6:30 PM''
      \<and> fourOutcomes plainRuntime (JStr ''2025-03-01T18:30:00Z'') (''March 1, 2025'', ''6:30 PM''))
   \<and> (\<exists>ev. transformRow plainRuntime (rowOf [(''Start'', unconvertible)]) = Inr ev
      \<and> formattedDate ev = ''Error in date'' \<and> formattedTime ev = ''Error in time''
      \<and> fourOutcomes plainRuntime unconvertible (''Error in date'', ''Error in time''))"
proof -
  have n: "nonEmptyFormatters plainRuntime"
    by (simp add: nonEmptyFormatters_def plainRuntime_def sampleRuntime_def)
  from formatted_four_outcomes [OF n, of
      "[(''id'', JStr ''i-1''), (''values'', JObj [(''Start'', JStr ''2025-03-01T18:30:00Z'')])]"]
  have w1: "\<exists>ev. transformRow plainRuntime (rowOf [(''Start'', JStr ''2025-03-01T18:30:00Z'')]) = Inr ev
      \<and> formattedDate ev = ''March 1, 2025'' \<and> formattedTime ev = ''6:30 PM''
      \<and> fourOutcomes plainRuntime (JStr ''2025-03-01T18:30:00Z'') (''March 1, 2025'', ''6:30 PM'')"
    by (auto simp: rowOf_def resolveField_def transformRow_def formatStart_def plainRuntime_def
        sampleRuntime_def sampleNewDate_def split: sum.splits)
  from formatted_four_outcomes [OF n, of
      "[(''id'', JStr ''i-1''), (''values'', JObj [(''Start'', unconvertible)])]"]
  have w2: "\<exists>ev. transformRow plainRuntime (rowOf [(''Start'', unconvertible)]) = Inr ev
      \<and> formattedDate ev = ''Error in date'' \<and> formattedTime ev = ''Error in time''
      \<and> fourOutcomes plainRuntime unconvertible (''Error in date'', ''Error in time'')"
    by (auto simp: rowOf_def resolveField_def transformRow_def formatStart_def plainRuntime_def
        sampleRuntime_def sampleNewDate_def unconvertible_def
        split: sum.splits)
  from n w1 w2 show ?thesis by blast
qed

text \<open>
  C3. Neither way of failing names the timeout. When the fetch is rejected with a
  cancellation (\<^verbatim>\<open>axios.isCancel(e)\<close>), line 46 reads
  \<^verbatim>\<open>requestTimeout\<close>, which line 24 declared inside the block of
  \<^verbatim>\<open>try\<close>: in the catch clause the name is unbound, the template literal throws a
  ReferenceError, and \<^verbatim>\<open>setError\<close> is never called. The finally clause clears
  \<^verbatim>\<open>loading\<close>, so the screen ends in the loaded state with no data and shows
  \<^verbatim>\<open>No events found.\<close>. When the client's own timeout expires, the rejection is no
  cancellation and carries the request: the message is the fixed one of line 50, which has
  no \<^verbatim>\<open>30\<close> in it.
\<close>

theorem timeout_or_cancel_names_no_timeout:
  "fetchData (sampleRuntime (Rejected cancelError)) (Some ''secret'') =
     \<lparr> finalState = \<lparr> data = JNull, loading = False, error = None \<rparr>,
       issued = [codaRequest (Some ''secret'') 30000],
       uncaught = Some (ReferenceError ''requestTimeout is not defined'') \<rparr>
   \<and> modeOf (finalState (fetchData (sampleRuntime (Rejected cancelError)) (Some ''secret'')))
       = Loaded JNull
   \<and> HomeScreen (sampleRuntime (Rejected cancelError))
         (finalState (fetchData (sampleRuntime (Rejected cancelError)) (Some ''secret'')))
       = Inr (page (ThemedText ''No events found.''))
   \<and> modeOf (finalState (fetchData (sampleRuntime (Rejected timeoutError)) (Some ''secret'')))
       = Error ''No response received from Coda Table API (axios).''
   \<and> \<not> sublist ''30'' ''No response received from Coda Table API (axios).''"
proof -
  have run: "fetchData (sampleRuntime (Rejected cancelError)) (Some ''secret'') =
     \<lparr> finalState = \<lparr> data = JNull, loading = False, error = None \<rparr>,
       issued = [codaRequest (Some ''secret'') 30000],
       uncaught = Some (ReferenceError ''requestTimeout is not defined'') \<rparr>"
    by (rule cancelled_fetch [where a = cancelError])
       (simp_all add: sampleRuntime_def cancelError_def)
  have expired: "fetchData (sampleRuntime (Rejected timeoutError)) (Some ''secret'') =
     \<lparr> finalState = \<lparr> data = JNull, loading = False,
         error = Some ''No response received from Coda Table API (axios).'' \<rparr>,
       issued = [codaRequest (Some ''secret'') 30000],
       uncaught = None \<rparr>"
    by (simp add: fetchData_rejected [where a = timeoutError] sampleRuntime_def timeoutError_def
        catchClause_def catchClauseIn_def finallyClause_def)
  have absent: "\<not> sublist ''30'' ''No response received from Coda Table API (axios).''"
    by (simp add: sublist_Cons_right)
  show ?thesis
    using absent
    by (simp add: run expired modeOf_def HomeScreen_def loadedScreen_def hasItems_def)
qed

text \<open>
  C4, as stated, fails. Both keys are present, the human-readable one with the empty string:
  the code gives the value under the code key, the claim the empty string.
\<close>

theorem field_resolution_counterexample:
  "resolveField (rowOf [(''Description'', JStr ''''), (''c-CuhtPto9h7'', JStr ''B'')])
       ''Description'' ''c-CuhtPto9h7'' = Inr (JStr ''B'')
   \<and> specResolve [(''Description'', JStr ''''), (''c-CuhtPto9h7'', JStr ''B'')]
       ''Description'' ''c-CuhtPto9h7'' = JStr ''''
   \<and> resolveField (rowOf [(''Description'', JStr ''''), (''c-CuhtPto9h7'', JStr ''B'')])
       ''Description'' ''c-CuhtPto9h7''
     \<noteq> Inr (specResolve [(''Description'', JStr ''''), (''c-CuhtPto9h7'', JStr ''B'')]
         ''Description'' ''c-CuhtPto9h7'')"
  by (simp add: rowOf_def resolveField_def specResolve_def)

text \<open>
  C4, amended. For a row whose \<^verbatim>\<open>values\<close> is an object, each of the four fields
  is the value under its human-readable key when that value is truthy, and otherwise (key
  absent, or value falsy) whatever stands under its code key, undefined when that key is
  absent. So with both keys absent the field is undefined, and with both present the
  human-readable value wins when it is truthy.
\<close>

theorem field_resolution_truthy_first:
  assumes "map_of ps ''values'' = Some (JObj vs)"
  shows "\<exists>ev. transformRow rt (JObj ps) = Inr ev
      \<and> eventStartDateTimeString ev = truthyResolve vs ''Start'' ''c-xM1UXlWtET''
      \<and> eventDescription ev = truthyResolve vs ''Description'' ''c-CuhtPto9h7''
      \<and> signUpLink ev = truthyResolve vs ''Sign Up Link'' ''c-oQ9f2MSLrG''
      \<and> graphicUrl ev = truthyResolve vs ''GraphicURL'' ''c-65xmsGtRJz''
      \<and> (\<forall>name code v. map_of vs name = Some v \<and> toBoolean v
            \<longrightarrow> truthyResolve vs name code = v)
      \<and> (\<forall>name code v. map_of vs name = Some v \<and> \<not> toBoolean v
            \<longrightarrow> truthyResolve vs name code = optionalIndex (JObj vs) code)
      \<and> (\<forall>name code w. map_of vs name = None \<and> map_of vs code = Some w
            \<longrightarrow> truthyResolve vs name code = w)
      \<and> (\<forall>name code. map_of vs name = None \<and> map_of vs code = None
            \<longrightarrow> truthyResolve vs name code = JUndefined)"
proof -
  have v: "valuesOf ps = JObj vs"
    using assms by (simp add: valuesOf_def)
  have fields: "\<exists>ev. transformRow rt (JObj ps) = Inr ev
      \<and> eventStartDateTimeString ev = truthyResolve vs ''Start'' ''c-xM1UXlWtET''
      \<and> eventDescription ev = truthyResolve vs ''Description'' ''c-CuhtPto9h7''
      \<and> signUpLink ev = truthyResolve vs ''Sign Up Link'' ''c-oQ9f2MSLrG''
      \<and> graphicUrl ev = truthyResolve vs ''GraphicURL'' ''c-65xmsGtRJz''"
    by (simp add: transformRow_object v orElse_truthyResolve del: optionalIndex.simps)
  have c1: "\<forall>name code v. map_of vs name = Some v \<and> toBoolean v
            \<longrightarrow> truthyResolve vs name code = v"
    by (simp add: truthyResolve_def)
  have c2: "\<forall>name code v. map_of vs name = Some v \<and> \<not> toBoolean v
            \<longrightarrow> truthyResolve vs name code = optionalIndex (JObj vs) code"
    by (simp add: truthyResolve_def)
  have c3: "\<forall>name code w. map_of vs name = None \<and> map_of vs code = Some w
            \<longrightarrow> truthyResolve vs name code = w"
    by (simp add: truthyResolve_def)
  have c4: "\<forall>name code. map_of vs name = None \<and> map_of vs code = None
            \<longrightarrow> truthyResolve vs name code = JUndefined"
    by (simp add: truthyResolve_def)
  from fields c1 c2 c3 c4 show ?thesis by blast
qed

theorem field_resolution_truthy_first_witness:
  "\<exists>ev. transformRow plainRuntime
          (rowOf [(''Start'', JStr []), (''c-xM1UXlWtET'', JStr ''2025-03-01T18:30:00Z''),
                  (''Description'', JStr ''A''), (''c-CuhtPto9h7'', JStr ''B''),
                  (''c-oQ9f2MSLrG'', JStr ''https://example.org/join'')]) = Inr ev
      \<and> eventStartDateTimeString ev = JStr ''2025-03-01T18:30:00Z''
      \<and> eventDescription ev = JStr ''A''
      \<and> signUpLink ev = JStr ''https://example.org/join''
      \<and> graphicUrl ev = JUndefined"
proof -
  have a: "map_of [(''id'', JStr ''i-1''),
                   (''values'', JObj [(''Start'', JStr []),
                      (''c-xM1UXlWtET'', JStr ''2025-03-01T18:30:00Z''),
                      (''Description'', JStr ''A''), (''c-CuhtPto9h7'', JStr ''B''),
                      (''c-oQ9f2MSLrG'', JStr ''https://example.org/join'')])] ''values''
      = Some (JObj [(''Start'', JStr []), (''c-xM1UXlWtET'', JStr ''2025-03-01T18:30:00Z''),
                    (''Description'', JStr ''A''), (''c-CuhtPto9h7'', JStr ''B''),
                    (''c-oQ9f2MSLrG'', JStr ''https://example.org/join'')])"
    by simp
  show ?thesis
    using field_resolution_truthy_first [OF a, of plainRuntime]
    by (auto simp: rowOf_def truthyResolve_def)
qed

text \<open>
  C5, as stated, fails in its second half. The resolved start value can be the empty string
  (no \<^verbatim>\<open>Start\<close>, the empty string under the code key): a string that is no valid
  date, and the two strings are the \<^verbatim>\<open>not available\<close> sentinels, not the
  \<^verbatim>\<open>Invalid\<close> ones.
\<close>

theorem start_sentinels_counterexample:
  "transformRow plainRuntime (rowOf [(''c-xM1UXlWtET'', JStr [])])
     = Inr \<lparr> eventStartDateTimeString = JStr [],
             eventDescription = JUndefined,
             signUpLink = JUndefined,
             graphicUrl = JUndefined,
             formattedDate = ''Date not available'',
             formattedTime = ''Time not available'' \<rparr>
   \<and> newDate plainRuntime (JStr []) = Inr None
   \<and> ''Date not available'' \<noteq> ''Invalid Date''"
  by (simp add: rowOf_def resolveField_def transformRow_def formatStart_def plainRuntime_def
      sampleRuntime_def sampleNewDate_def)

text \<open>
  C5, amended. For every row object the transform returns; when the resolved start value is
  falsy the two strings are the \<^verbatim>\<open>not available\<close> sentinels, and when it is a
  non-empty string of which the Date constructor makes no valid date they are the
  \<^verbatim>\<open>Invalid\<close> sentinels.
\<close>

theorem start_sentinels:
  "\<exists>ev. transformRow rt (JObj ps) = Inr ev
      \<and> (\<not> toBoolean (eventStartDateTimeString ev)
           \<longrightarrow> formattedDate ev = ''Date not available''
               \<and> formattedTime ev = ''Time not available'')
      \<and> (\<forall>s. eventStartDateTimeString ev = JStr s \<and> s \<noteq> [] \<and> newDate rt (JStr s) = Inr None
           \<longrightarrow> formattedDate ev = ''Invalid Date'' \<and> formattedTime ev = ''Invalid Time'')"
proof -
  obtain ev where ev: "transformRow rt (JObj ps) = Inr ev"
    and d: "formattedDate ev = fst (formatStart rt (eventStartDateTimeString ev))"
    and t: "formattedTime ev = snd (formatStart rt (eventStartDateTimeString ev))"
    by (rule transformRow_object_start)
  have na: "\<not> toBoolean (eventStartDateTimeString ev)
      \<longrightarrow> formattedDate ev = ''Date not available'' \<and> formattedTime ev = ''Time not available''"
    by (simp add: d t formatStart_falsy)
  have inv: "\<forall>s. eventStartDateTimeString ev = JStr s \<and> s \<noteq> [] \<and> newDate rt (JStr s) = Inr None
      \<longrightarrow> formattedDate ev = ''Invalid Date'' \<and> formattedTime ev = ''Invalid Time''"
  proof (intro allI impI)
    fix s
    assume h: "eventStartDateTimeString ev = JStr s \<and> s \<noteq> [] \<and> newDate rt (JStr s) = Inr None"
    then have "toBoolean (JStr s)" and "newDate rt (JStr s) = Inr None"
      by simp_all
    then have "formatStart rt (JStr s) = (''Invalid Date'', ''Invalid Time'')"
      by (rule formatStart_invalid)
    with h show "formattedDate ev = ''Invalid Date'' \<and> formattedTime ev = ''Invalid Time''"
      by (simp add: d t)
  qed
  from ev na inv show ?thesis by blast
qed

theorem start_sentinels_witness:
  "(\<exists>ev. transformRow plainRuntime (rowOf [(''Description'', JStr ''A'')]) = Inr ev
      \<and> formattedDate ev = ''Date not available'' \<and> formattedTime ev = ''Time not available'')
   \<and> (\<exists>ev. transformRow plainRuntime (rowOf [(''Start'', JStr ''not-a-date'')]) = Inr ev
      \<and> formattedDate ev = ''Invalid Date'' \<and> formattedTime ev = ''Invalid Time'')"
proof -
  have n: "newDate plainRuntime (JStr ''not-a-date'') = Inr None"
    by (simp add: plainRuntime_def sampleRuntime_def sampleNewDate_def)
  have r1: "resolveField (rowOf [(''Description'', JStr ''A'')]) ''Start'' ''c-xM1UXlWtET''
      = Inr JUndefined"
    by (simp add: rowOf_def resolveField_def)
  have r2: "resolveField (rowOf [(''Start'', JStr ''not-a-date'')]) ''Start'' ''c-xM1UXlWtET''
      = Inr (JStr ''not-a-date'')"
    by (simp add: rowOf_def resolveField_def)
  from start_sentinels [of plainRuntime "[(''id'', JStr ''i-1''), (''values'', JObj [(''Description'', JStr ''A'')])]"]
  have w1: "\<exists>ev. transformRow plainRuntime (rowOf [(''Description'', JStr ''A'')]) = Inr ev
      \<and> formattedDate ev = ''Date not available'' \<and> formattedTime ev = ''Time not available''"
    using r1 by (auto simp: rowOf_def transformRow_def split: sum.splits)
  from start_sentinels [of plainRuntime "[(''id'', JStr ''i-1''), (''values'', JObj [(''Start'', JStr ''not-a-date'')])]"]
  have w2: "\<exists>ev. transformRow plainRuntime (rowOf [(''Start'', JStr ''not-a-date'')]) = Inr ev
      \<and> formattedDate ev = ''Invalid Date'' \<and> formattedTime ev = ''Invalid Time''"
    using r2 n by (auto simp: rowOf_def transformRow_def split: sum.splits)
  from w1 w2 show ?thesis by blast
qed

text \<open>
  C6. The server answered and the client rejected the promise with the response attached
  (how axios reports a status outside 200 to 299), and the rejection is no cancellation. The
  screen ends in the Error state; the message is built from the status code in decimal and
  the serialized response body, so it contains both. For the status 500 the digits are
  \<^verbatim>\<open>500\<close>.
\<close>

theorem server_error_message:
  assumes "\<not> tokenMissing apiToken"
    and "axiosGet rt (codaRequest apiToken 30000) = Rejected a"
    and "\<not> isCancel a"
    and "errResponse a = Some r"
  shows "modeOf (finalState (fetchData rt apiToken))
           = Error (''Server error! Status: '' @ numberToString (status r)
               @ ''. Message: '' @ jsonStringify rt (responseData r))
         \<and> sublist (numberToString (status r))
               (''Server error! Status: '' @ numberToString (status r)
                 @ ''. Message: '' @ jsonStringify rt (responseData r))
         \<and> sublist (jsonStringify rt (responseData r))
               (''Server error! Status: '' @ numberToString (status r)
                 @ ''. Message: '' @ jsonStringify rt (responseData r))
         \<and> (status r = 500 \<longrightarrow> numberToString (status r) = ''500'')
         \<and> HomeScreen rt (finalState (fetchData rt apiToken))
             = Inr (page (RedText (''Error: '' @ ''Server error! Status: ''
                 @ numberToString (status r) @ ''. Message: ''
                 @ jsonStringify rt (responseData r))))"
proof -
  let ?msg = "''Server error! Status: '' @ numberToString (status r)
                 @ ''. Message: '' @ jsonStringify rt (responseData r)"
  have caught: "catchClause rt (AxiosRejection a) \<lparr> data = JNull, loading = True, error = None \<rparr>
      = Inr \<lparr> data = JNull, loading = True, error = Some ?msg \<rparr>"
    using assms(3,4) by (simp add: catchClause_def catchClauseIn_def)
  have run: "finalState (fetchData rt apiToken)
      = \<lparr> data = JNull, loading = False, error = Some ?msg \<rparr>"
    using assms(1,2) by (simp add: fetchData_rejected caught finallyClause_def)
  have s1: "sublist (numberToString (status r)) ?msg"
    by (rule sublist_appendI)
  have s2: "sublist (jsonStringify rt (responseData r)) ?msg"
    by (metis append.assoc sublist_append_leftI)
  have d: "status r = 500 \<longrightarrow> numberToString (status r) = ''500''"
    by (simp add: numberToString_500)
  have m: "modeOf (finalState (fetchData rt apiToken)) = Error ?msg"
    by (simp add: run modeOf_def)
  have h: "HomeScreen rt (finalState (fetchData rt apiToken))
      = Inr (page (RedText (''Error: '' @ ?msg)))"
    by (simp add: run HomeScreen_def)
  from m s1 s2 d h show ?thesis by blast
qed

theorem server_error_message_witness:
  "modeOf (finalState (fetchData (sampleRuntime (Rejected serverError)) (Some ''secret'')))
     = Error ''Server error! Status: 500. Message: {\"msg\":\"fail\"}''
   \<and> sublist ''500'' ''Server error! Status: 500. Message: {\"msg\":\"fail\"}''
   \<and> sublist ''{\"msg\":\"fail\"}'' ''Server error! Status: 500. Message: {\"msg\":\"fail\"}''"
proof -
  have a1: "\<not> tokenMissing (Some ''secret'')" by simp
  have a2: "axiosGet (sampleRuntime (Rejected serverError)) (codaRequest (Some ''secret'') 30000)
      = Rejected serverError"
    by (simp add: sampleRuntime_def)
  have a3: "\<not> isCancel serverError" by (simp add: serverError_def)
  have a4: "errResponse serverError = Some failResponse" by (simp add: serverError_def)
  show ?thesis
    using server_error_message [OF a1 a2 a3 a4]
    by (simp add: failResponse_def sampleRuntime_def numberToString_500)
qed





text \<open>
  C9. For every row object the card's last child is the pressable
  \<^verbatim>\<open>Sign Up\<close> button, which opens the link, exactly when the resolved sign-up
  link is truthy; otherwise it is the placeholder text, which is no button.
\<close>

theorem sign_up_control_iff_link:
  "\<exists>ev c. transformRow rt (JObj ps) = Inr ev
      \<and> renderEventCard rt (JObj ps) index = Inr c
      \<and> signUpLink ev = orElse (optionalIndex (valuesOf ps) ''Sign Up Link'')
                               (optionalIndex (valuesOf ps) ''c-oQ9f2MSLrG'')
      \<and> cardAction c =
          (if toBoolean (signUpLink ev) then Pressable ''Sign Up'' (OpenURL (signUpLink ev))
           else PlaceholderText ''(No sign-up link provided)'')
      \<and> isActionable (cardAction c) = toBoolean (signUpLink ev)"
  by (simp add: renderEventCard_def transformRow_object cardOf_def handleSignUp_def)

theorem sign_up_control_iff_link_witness:
  "(\<exists>c. renderEventCard plainRuntime (rowOf [(''Sign Up Link'', JStr ''https://example.org/join'')]) 0
        = Inr c
      \<and> cardAction c = Pressable ''Sign Up'' (OpenURL (JStr ''https://example.org/join'')))
   \<and> (\<exists>c. renderEventCard plainRuntime (rowOf [(''Description'', JStr ''A'')]) 0 = Inr c
      \<and> cardAction c = PlaceholderText ''(No sign-up link provided)'')"
proof -
  from sign_up_control_iff_link [of plainRuntime
      "[(''id'', JStr ''i-1''), (''values'', JObj [(''Sign Up Link'', JStr ''https://example.org/join'')])]" 0]
  have w1: "\<exists>c. renderEventCard plainRuntime
        (rowOf [(''Sign Up Link'', JStr ''https://example.org/join'')]) 0 = Inr c
      \<and> cardAction c = Pressable ''Sign Up'' (OpenURL (JStr ''https://example.org/join''))"
    by (auto simp: rowOf_def valuesOf_def orElse_def)
  from sign_up_control_iff_link [of plainRuntime
      "[(''id'', JStr ''i-1''), (''values'', JObj [(''Description'', JStr ''A'')])]" 0]
  have w2: "\<exists>c. renderEventCard plainRuntime (rowOf [(''Description'', JStr ''A'')]) 0 = Inr c
      \<and> cardAction c = PlaceholderText ''(No sign-up link provided)''"
    by (auto simp: rowOf_def valuesOf_def orElse_def)
  from w1 w2 show ?thesis by blast
qed

text \<open>
  C10. Resolution tests truthiness, not the presence of a key. In a row whose
  \<^verbatim>\<open>values\<close> is an object, an empty string under the human-readable key gives
  what the code key gives, exactly as a row without the human-readable key does; a
  non-empty string under the code key is then the resolved value. With the empty string
  under \<^verbatim>\<open>Start\<close> and nothing truthy under its code key, the two strings are the
  \<^verbatim>\<open>not available\<close> sentinels, not the \<^verbatim>\<open>Invalid\<close> ones.
\<close>

theorem empty_string_behaves_as_absent:
  assumes "map_of ps ''values'' = Some (JObj vs)"
  shows "(map_of vs name = Some (JStr []) \<longrightarrow>
            resolveField (JObj ps) name code = Inr (optionalIndex (JObj vs) code)
            \<and> (\<forall>ps' vs'. map_of ps' ''values'' = Some (JObj vs') \<and> map_of vs' name = None
                   \<and> map_of vs' code = map_of vs code
                 \<longrightarrow> resolveField (JObj ps') name code = resolveField (JObj ps) name code)
            \<and> (\<forall>s. map_of vs code = Some (JStr s) \<and> s \<noteq> []
                 \<longrightarrow> resolveField (JObj ps) name code = Inr (JStr s)))
         \<and> (map_of vs ''Start'' = Some (JStr [])
              \<and> \<not> toBoolean (optionalIndex (JObj vs) ''c-xM1UXlWtET'') \<longrightarrow>
            (\<exists>ev. transformRow rt (JObj ps) = Inr ev
               \<and> formattedDate ev = ''Date not available''
               \<and> formattedTime ev = ''Time not available''))"
proof -
  have v: "valuesOf ps = JObj vs"
    using assms by (simp add: valuesOf_def)
  have res: "\<And>n c. resolveField (JObj ps) n c
      = Inr (orElse (optionalIndex (JObj vs) n) (optionalIndex (JObj vs) c))"
    by (simp add: resolveField_object v del: optionalIndex.simps)
  have general: "map_of vs name = Some (JStr []) \<longrightarrow>
            resolveField (JObj ps) name code = Inr (optionalIndex (JObj vs) code)
            \<and> (\<forall>ps' vs'. map_of ps' ''values'' = Some (JObj vs') \<and> map_of vs' name = None
                   \<and> map_of vs' code = map_of vs code
                 \<longrightarrow> resolveField (JObj ps') name code = resolveField (JObj ps) name code)
            \<and> (\<forall>s. map_of vs code = Some (JStr s) \<and> s \<noteq> []
                 \<longrightarrow> resolveField (JObj ps) name code = Inr (JStr s))"
  proof
    assume e: "map_of vs name = Some (JStr [])"
    have a: "resolveField (JObj ps) name code = Inr (optionalIndex (JObj vs) code)"
      using e by (simp add: res orElse_def)
    have b: "\<forall>ps' vs'. map_of ps' ''values'' = Some (JObj vs') \<and> map_of vs' name = None
                   \<and> map_of vs' code = map_of vs code
                 \<longrightarrow> resolveField (JObj ps') name code = resolveField (JObj ps) name code"
    proof (intro allI impI)
      fix ps' vs'
      assume h: "map_of ps' ''values'' = Some (JObj vs') \<and> map_of vs' name = None
                   \<and> map_of vs' code = map_of vs code"
      then have v': "valuesOf ps' = JObj vs'"
        by (simp add: valuesOf_def)
      have "resolveField (JObj ps') name code
          = Inr (orElse (optionalIndex (JObj vs') name) (optionalIndex (JObj vs') code))"
        by (simp add: resolveField_object v' del: optionalIndex.simps)
      also have "\<dots> = Inr (optionalIndex (JObj vs) code)"
        using h by (simp add: orElse_def)
      finally show "resolveField (JObj ps') name code = resolveField (JObj ps) name code"
        by (simp add: a)
    qed
    have c: "\<forall>s. map_of vs code = Some (JStr s) \<and> s \<noteq> []
                 \<longrightarrow> resolveField (JObj ps) name code = Inr (JStr s)"
      by (simp add: a)
    from a b c show "resolveField (JObj ps) name code = Inr (optionalIndex (JObj vs) code)
            \<and> (\<forall>ps' vs'. map_of ps' ''values'' = Some (JObj vs') \<and> map_of vs' name = None
                   \<and> map_of vs' code = map_of vs code
                 \<longrightarrow> resolveField (JObj ps') name code = resolveField (JObj ps) name code)
            \<and> (\<forall>s. map_of vs code = Some (JStr s) \<and> s \<noteq> []
                 \<longrightarrow> resolveField (JObj ps) name code = Inr (JStr s))"
      by blast
  qed
  have start: "map_of vs ''Start'' = Some (JStr [])
              \<and> \<not> toBoolean (optionalIndex (JObj vs) ''c-xM1UXlWtET'') \<longrightarrow>
            (\<exists>ev. transformRow rt (JObj ps) = Inr ev
               \<and> formattedDate ev = ''Date not available''
               \<and> formattedTime ev = ''Time not available'')"
  proof
    assume h: "map_of vs ''Start'' = Some (JStr [])
              \<and> \<not> toBoolean (optionalIndex (JObj vs) ''c-xM1UXlWtET'')"
    obtain ev where ev: "transformRow rt (JObj ps) = Inr ev"
      and s: "eventStartDateTimeString ev
           = orElse (optionalIndex (valuesOf ps) ''Start'') (optionalIndex (valuesOf ps) ''c-xM1UXlWtET'')"
      and d: "formattedDate ev = fst (formatStart rt (eventStartDateTimeString ev))"
      and t: "formattedTime ev = snd (formatStart rt (eventStartDateTimeString ev))"
      by (rule transformRow_object_start)
    have "\<not> toBoolean (eventStartDateTimeString ev)"
      using h by (simp add: s v orElse_def)
    then have "formattedDate ev = ''Date not available'' \<and> formattedTime ev = ''Time not available''"
      by (simp add: d t formatStart_falsy)
    with ev show "\<exists>ev. transformRow rt (JObj ps) = Inr ev
               \<and> formattedDate ev = ''Date not available''
               \<and> formattedTime ev = ''Time not available''"
      by blast
  qed
  from general start show ?thesis by blast
qed

theorem empty_string_behaves_as_absent_witness:
  "resolveField (rowOf [(''Description'', JStr []), (''c-CuhtPto9h7'', JStr ''B'')])
       ''Description'' ''c-CuhtPto9h7'' = Inr (JStr ''B'')
   \<and> (\<exists>ev. transformRow plainRuntime (rowOf [(''Start'', JStr [])]) = Inr ev
      \<and> formattedDate ev = ''Date not available''
      \<and> formattedTime ev = ''Time not available'')"
proof -
  have a: "map_of [(''id'', JStr ''i-1''),
                   (''values'', JObj [(''Description'', JStr []), (''c-CuhtPto9h7'', JStr ''B'')])]
             ''values''
      = Some (JObj [(''Description'', JStr []), (''c-CuhtPto9h7'', JStr ''B'')])"
    by simp
  have b: "map_of [(''id'', JStr ''i-1''), (''values'', JObj [(''Start'', JStr [])])] ''values''
      = Some (JObj [(''Start'', JStr [])])"
    by simp
  have w1: "resolveField (rowOf [(''Description'', JStr []), (''c-CuhtPto9h7'', JStr ''B'')])
       ''Description'' ''c-CuhtPto9h7'' = Inr (JStr ''B'')"
    using empty_string_behaves_as_absent [OF a, of "''Description''" "''c-CuhtPto9h7''" plainRuntime]
    by (simp add: rowOf_def)
  have w2: "\<exists>ev. transformRow plainRuntime (rowOf [(''Start'', JStr [])]) = Inr ev
      \<and> formattedDate ev = ''Date not available''
      \<and> formattedTime ev = ''Time not available''"
    using empty_string_behaves_as_absent [OF b, of "''Start''" "''c-xM1UXlWtET''" plainRuntime]
    by (simp add: rowOf_def)
  from w1 w2 show ?thesis by blast
qed

end
